theory Spec2Isabelle
  imports Complex_Main
begin

text \<open>
  A shallow embedding of the battle resolution code of the Python port of Unciv
  (\<open>battle.py\<close>, \<open>battle_damage.py\<close>, \<open>battle_unit_capture.py\<close>, \<open>city_combatant.py\<close>,
  \<open>nuke.py\<close>), and the properties of it that the specification states.
\<close>

section \<open>Python numerics\<close>

text \<open>
  Python floats are idealised as the reals (rounding is not modelled) and Python's
  unbounded integers are \<open>int\<close>.  \<open>math.pow\<close> is only ever called with the integer
  exponents \<open>-1\<close>, \<open>1\<close> and \<open>4\<close>; it raises \<open>ValueError\<close> on a zero base with a
  negative exponent.  Float division by zero raises \<open>ZeroDivisionError\<close>.
  \<open>int(x)\<close> truncates towards zero.
\<close>

datatype error = ValueError | ZeroDivisionError

definition pow :: "real \<Rightarrow> int \<Rightarrow> error + real" where
  "pow x y = (if x = 0 \<and> y < 0 then Inl ValueError else Inr (x powi y))"

definition py_div :: "real \<Rightarrow> real \<Rightarrow> error + real" where
  "py_div a b = (if b = 0 then Inl ZeroDivisionError else Inr (a / b))"

definition py_int :: "real \<Rightarrow> int" where
  "py_int x = (if 0 \<le> x then \<lfloor>x\<rfloor> else \<lceil>x\<rceil>)"

section \<open>Random sources\<close>

text \<open>
  The code draws from two sources.  \<open>random.random()\<close> reads the process-wide generator
  and advances it; \<open>random.Random(seed).random()\<close> builds a fresh generator from the seed,
  reads its first value and leaves the process-wide generator alone.  The process-wide
  generator is a stream \<open>rnd\<close> of reals together with the position \<open>g\<close> of the next draw;
  the first value of a generator seeded with \<open>seed\<close> is \<open>prng seed\<close>.
\<close>

type_synonym rng = nat


definition seeded_random :: "(int \<Rightarrow> real) \<Rightarrow> int \<Rightarrow> rng \<Rightarrow> real \<times> rng" where
  "seeded_random prng seed g = (prng seed, g)"

section \<open>Combatants\<close>

text \<open>
  \<open>ICombatant\<close> has the two variants \<open>CityCombatant\<close> and \<open>MapUnitCombatant\<close>.  Only the
  fields the battle code reads are kept.  The boolean fields of a unit stand for queries
  answered by classes outside the battle package (\<open>base_unit.is_ranged()\<close>,
  \<open>base_unit.is_air_unit()\<close>, \<open>unit.is_civilian()\<close>, \<open>civ.is_barbarian\<close> and the
  \<open>has_unique\<close> look-ups named in the field).
\<close>

record city =
  city_health :: int
  city_turns :: int
  city_position_hash :: int

record map_unit =
  unit_health :: int
  unit_is_ranged :: bool
  unit_is_air_unit :: bool
  unit_is_civilian :: bool
  unit_civ_is_barbarian :: bool
  unit_turns :: int
  unit_position_hash :: int
  unit_NoDamagePenaltyWoundedUnits :: bool
  unit_CannotCaptureCities :: bool
  unit_Uncapturable :: bool

datatype combatant = CityCombatant city | MapUnitCombatant map_unit

fun get_health :: "combatant \<Rightarrow> int" where
  "get_health (CityCombatant c) = city_health c"
| "get_health (MapUnitCombatant u) = unit_health u"

fun is_defeated :: "combatant \<Rightarrow> bool" where
  "is_defeated (CityCombatant c) = (city_health c = 1)"
| "is_defeated (MapUnitCombatant u) = (unit_health u \<le> 0)"

fun is_ranged :: "combatant \<Rightarrow> bool" where
  "is_ranged (CityCombatant c) = True"
| "is_ranged (MapUnitCombatant u) = unit_is_ranged u"

definition is_melee :: "combatant \<Rightarrow> bool" where
  "is_melee c = (\<not> is_ranged c)"

fun is_air_unit :: "combatant \<Rightarrow> bool" where
  "is_air_unit (CityCombatant c) = False"
| "is_air_unit (MapUnitCombatant u) = unit_is_air_unit u"

fun is_city :: "combatant \<Rightarrow> bool" where
  "is_city (CityCombatant c) = True"
| "is_city (MapUnitCombatant u) = False"

fun is_civilian :: "combatant \<Rightarrow> bool" where
  "is_civilian (CityCombatant c) = False"
| "is_civilian (MapUnitCombatant u) = unit_is_civilian u"

fun get_turns :: "combatant \<Rightarrow> int" where
  "get_turns (CityCombatant c) = city_turns c"
| "get_turns (MapUnitCombatant u) = unit_turns u"

fun get_position_hash :: "combatant \<Rightarrow> int" where
  "get_position_hash (CityCombatant c) = city_position_hash c"
| "get_position_hash (MapUnitCombatant u) = unit_position_hash u"

text \<open>
  \<open>CityCombatant.take_damage\<close>: subtract, then lift a result below 1 back to 1.
\<close>

definition CityCombatant_take_damage :: "city \<Rightarrow> int \<Rightarrow> city" where
  "CityCombatant_take_damage c damage =
     (let c1 = c\<lparr>city_health := city_health c - damage\<rparr>
      in if city_health c1 < 1 then c1\<lparr>city_health := 1\<rparr> else c1)"

text \<open>
  \<open>MapUnitCombatant.take_damage\<close> delegates to \<open>MapUnit.take_damage\<close>, which is not part of
  the battle package; it is the parameter \<open>utd\<close> (old health and damage to new health).
\<close>

fun take_damage :: "(int \<Rightarrow> int \<Rightarrow> int) \<Rightarrow> combatant \<Rightarrow> int \<Rightarrow> combatant" where
  "take_damage utd (CityCombatant c) damage = CityCombatant (CityCombatant_take_damage c damage)"
| "take_damage utd (MapUnitCombatant u) damage =
     MapUnitCombatant (u\<lparr>unit_health := utd (unit_health u) damage\<rparr>)"

text \<open>A sequence of \<open>take_damage\<close> calls on one city, and the health after each call.\<close>

fun take_damage_calls :: "city \<Rightarrow> int list \<Rightarrow> city" where
  "take_damage_calls c [] = c"
| "take_damage_calls c (d # ds) = take_damage_calls (CityCombatant_take_damage c d) ds"

fun health_after_each_call :: "city \<Rightarrow> int list \<Rightarrow> int list" where
  "health_after_each_call c [] = []"
| "health_after_each_call c (d # ds) =
     city_health (CityCombatant_take_damage c d)
       # health_after_each_call (CityCombatant_take_damage c d) ds"

section \<open>Damage model\<close>

definition random_centered_around_30 :: "real \<Rightarrow> real" where
  "random_centered_around_30 randomness_factor = 24 + 12 * randomness_factor"

text \<open>\<open>BattleDamage.damage_modifier\<close>, statement by statement.\<close>

definition damage_modifier :: "real \<Rightarrow> bool \<Rightarrow> real \<Rightarrow> error + real" where
  "damage_modifier attacker_to_defender_ratio damage_to_attacker randomness_factor =
     (case pow attacker_to_defender_ratio (if attacker_to_defender_ratio < 1 then - 1 else 1) of
        Inl e \<Rightarrow> Inl e
      | Inr stronger_to_weaker_ratio \<Rightarrow>
          (case pow ((stronger_to_weaker_ratio + 3) / 4) 4 of
             Inl e \<Rightarrow> Inl e
           | Inr p \<Rightarrow>
               (case (if (damage_to_attacker \<and> attacker_to_defender_ratio > 1)
                         \<or> (\<not> damage_to_attacker \<and> attacker_to_defender_ratio < 1)
                      then pow ((p + 1) / 2) (- 1) else Inr ((p + 1) / 2)) of
                  Inl e \<Rightarrow> Inl e
                | Inr ratio_modifier \<Rightarrow>
                    Inr (random_centered_around_30 randomness_factor * ratio_modifier))))"


text \<open>
  \<open>BattleConstants\<close> is not part of the battle package sources; its two constants used
  here are parameters.  The base strengths and the modifier counters are computed from
  rulesets, terrain and uniques outside the package; \<open>damage_inputs\<close> carries the values
  \<open>attacker.get_attacking_strength()\<close>,
  \<open>defender.get_defending_strength(attacker.is_ranged())\<close> and the values of the counters
  returned by \<open>get_attack_modifiers\<close> and \<open>get_defence_modifiers\<close>.
\<close>

record battle_constants =
  DAMAGE_REDUCTION_WOUNDED_UNIT_RATIO_PERCENTAGE :: real
  DAMAGE_TO_CIVILIAN_UNIT :: int

record damage_inputs =
  attacker_base_strength :: int
  defender_base_strength :: int
  attack_modifiers :: "real list"
  defence_modifiers :: "real list"

definition modifiers_to_final_bonus :: "real list \<Rightarrow> real" where
  "modifiers_to_final_bonus modifiers =
     fold (\<lambda>modifier_value final_modifier. final_modifier + modifier_value / 100) modifiers 1"

definition get_attacking_strength :: "damage_inputs \<Rightarrow> real" where
  "get_attacking_strength di =
     max 1 (real_of_int (attacker_base_strength di) * modifiers_to_final_bonus (attack_modifiers di))"

definition get_defending_strength :: "damage_inputs \<Rightarrow> real" where
  "get_defending_strength di =
     max 1 (real_of_int (defender_base_strength di) * modifiers_to_final_bonus (defence_modifiers di))"

fun get_health_dependant_damage_ratio :: "battle_constants \<Rightarrow> combatant \<Rightarrow> error + real" where
  "get_health_dependant_damage_ratio bc (CityCombatant c) = Inr 1"
| "get_health_dependant_damage_ratio bc (MapUnitCombatant u) =
     (if unit_NoDamagePenaltyWoundedUnits u then Inr 1
      else (case py_div (real_of_int (100 - unit_health u))
                        (DAMAGE_REDUCTION_WOUNDED_UNIT_RATIO_PERCENTAGE bc) of
              Inl e \<Rightarrow> Inl e
            | Inr q \<Rightarrow> Inr (1 - q)))"

text \<open>
  The default of the \<open>randomness_factor\<close> argument: when it is \<open>None\<close>, the first value of a
  generator seeded with the product of the turn number and the hash of the tile position of
  the combatant \<open>c\<close> (the attacker in \<open>calculate_damage_to_attacker\<close>, the defender in
  \<open>calculate_damage_to_defender\<close>).
\<close>

definition default_randomness_factor ::
  "(int \<Rightarrow> real) \<Rightarrow> combatant \<Rightarrow> real option \<Rightarrow> rng \<Rightarrow> real \<times> rng" where
  "default_randomness_factor prng c randomness_factor g =
     (case randomness_factor of
        Some f \<Rightarrow> (f, g)
      | None \<Rightarrow> seeded_random prng (get_turns c * get_position_hash c) g)"

definition damage_from_ratio ::
  "battle_constants \<Rightarrow> damage_inputs \<Rightarrow> bool \<Rightarrow> real \<Rightarrow> combatant \<Rightarrow> error + int" where
  "damage_from_ratio bc di damage_to_attacker randomness_factor penalised =
     (case py_div (get_attacking_strength di) (get_defending_strength di) of
        Inl e \<Rightarrow> Inl e
      | Inr ratio \<Rightarrow>
          (case damage_modifier ratio damage_to_attacker randomness_factor of
             Inl e \<Rightarrow> Inl e
           | Inr dm \<Rightarrow>
               (case get_health_dependant_damage_ratio bc penalised of
                  Inl e \<Rightarrow> Inl e
                | Inr hr \<Rightarrow> Inr (py_int (dm * hr)))))"

definition calculate_damage_to_attacker ::
  "(int \<Rightarrow> real) \<Rightarrow> battle_constants \<Rightarrow> damage_inputs \<Rightarrow> combatant \<Rightarrow> combatant
     \<Rightarrow> real option \<Rightarrow> rng \<Rightarrow> (error + int) \<times> rng" where
  "calculate_damage_to_attacker prng bc di attacker defender randomness_factor g =
     (let (rf, g1) = default_randomness_factor prng attacker randomness_factor g
      in if is_ranged attacker \<and> \<not> is_air_unit attacker then (Inr 0, g1)
         else if is_civilian defender then (Inr 0, g1)
         else (damage_from_ratio bc di True rf defender, g1))"

definition calculate_damage_to_defender ::
  "(int \<Rightarrow> real) \<Rightarrow> battle_constants \<Rightarrow> damage_inputs \<Rightarrow> combatant \<Rightarrow> combatant
     \<Rightarrow> real option \<Rightarrow> rng \<Rightarrow> (error + int) \<times> rng" where
  "calculate_damage_to_defender prng bc di attacker defender randomness_factor g =
     (let (rf, g1) = default_randomness_factor prng defender randomness_factor g
      in if is_civilian defender then (Inr (DAMAGE_TO_CIVILIAN_UNIT bc), g1)
         else (damage_from_ratio bc di False rf attacker, g1))"

section \<open>The HP exchange of \<open>Battle.take_damage\<close>\<close>








section \<open>Capture of military units\<close>

text \<open>
  \<open>BattleUnitCapture\<close>.  The uniques are read from the ruleset; \<open>capture_inputs\<close> carries
  the parameters of the uniques returned by the three \<open>get_matching_uniques\<close> calls (with
  \<open>int(...)\<close> already applied to the amounts), the two filter predicates
  (\<open>defender.matches_filter\<close> and \<open>defender.unit.matches_filter\<close>), the base strengths, whether
  the attacked tile carries a barbarian encampment, and what \<open>place_unit_near_tile\<close> returns:
  \<open>None\<close>, or a unit together with whether it stands on the defender's tile.
\<close>

record capture_inputs =
  KillUnitCapture_filters :: "string list"
  GainFromEncampment_amounts :: "int list"
  GainFromDefeatingUnit_uniques :: "(string \<times> int) list"
  defender_matches_filter :: "string \<Rightarrow> bool"
  defender_unit_matches_filter :: "string \<Rightarrow> bool"
  capture_attacking_strength :: int
  capture_defending_strength :: int
  attacked_tile_is_encampment :: bool
  place_unit_near_tile :: "bool option"
  civilian_on_defender_tile :: bool

record capture_world =
  attacker_civ_gold :: int
  added_unit :: "(int \<times> real) option"
  capture_notifications :: nat
  civilian_capture_invoked :: bool
  capture_rng :: rng

text \<open>
  Modelled from the spec: \<open>Civilization.add_gold\<close> is not among the sources; it adds the
  amount to the gold ledger of the civilization.
\<close>

definition add_gold :: "int \<Rightarrow> capture_world \<Rightarrow> capture_world" where
  "add_gold amount w = w\<lparr>attacker_civ_gold := attacker_civ_gold w + amount\<rparr>"

definition prize_ships_roll :: "(int \<Rightarrow> real) \<Rightarrow> map_unit \<Rightarrow> map_unit \<Rightarrow> rng \<Rightarrow> real \<times> rng" where
  "prize_ships_roll prng attacker_unit defender_unit g =
     seeded_random prng (unit_turns attacker_unit * unit_position_hash defender_unit) g"

definition unit_captured_prize_ships_unique ::
  "(int \<Rightarrow> real) \<Rightarrow> capture_inputs \<Rightarrow> map_unit \<Rightarrow> map_unit \<Rightarrow> capture_world
     \<Rightarrow> error + (bool \<times> capture_world)" where
  "unit_captured_prize_ships_unique prng ci attacker_unit defender_unit w =
     (if \<not> list_ex (defender_matches_filter ci) (KillUnitCapture_filters ci) then Inr (False, w)
      else (case py_div (real_of_int (capture_attacking_strength ci))
                        (real_of_int (capture_defending_strength ci)) of
              Inl e \<Rightarrow> Inl e
            | Inr q \<Rightarrow>
                (let capture_chance = min (8 / 10) (1 / 10 + q * (4 / 10));
                     (x, g1) = prize_ships_roll prng attacker_unit defender_unit (capture_rng w)
                 in Inr (x \<le> capture_chance, w\<lparr>capture_rng := g1\<rparr>))))"

definition unit_gain_from_defeating_unit ::
  "capture_inputs \<Rightarrow> map_unit \<Rightarrow> capture_world \<Rightarrow> bool \<times> capture_world" where
  "unit_gain_from_defeating_unit ci attacker_unit w =
     (if \<not> is_melee (MapUnitCombatant attacker_unit) then (False, w)
      else fold (\<lambda>unique (unit_captured, w1).
                   if defender_unit_matches_filter ci (fst unique)
                   then (True, add_gold (snd unique) w1) else (unit_captured, w1))
             (GainFromDefeatingUnit_uniques ci) (False, w))"

definition unit_captured_from_encampment ::
  "capture_inputs \<Rightarrow> map_unit \<Rightarrow> capture_world \<Rightarrow> bool \<times> capture_world" where
  "unit_captured_from_encampment ci defender_unit w =
     (if \<not> unit_civ_is_barbarian defender_unit then (False, w)
      else if \<not> attacked_tile_is_encampment ci then (False, w)
      else fold (\<lambda>amount (unit_captured, w1). (True, add_gold amount w1))
             (GainFromEncampment_amounts ci) (False, w))"

definition spawn_captured_unit :: "capture_inputs \<Rightarrow> capture_world \<Rightarrow> bool \<times> capture_world" where
  "spawn_captured_unit ci w =
     (case place_unit_near_tile ci of
        None \<Rightarrow> (False, w)
      | Some on_defender_tile \<Rightarrow>
          (True, w\<lparr>added_unit := Some (50, 0),
                   capture_notifications := capture_notifications w + 2,
                   civilian_capture_invoked :=
                     (\<not> on_defender_tile \<and> civilian_on_defender_tile ci)\<rparr>))"

definition try_capture_military_unit ::
  "(int \<Rightarrow> real) \<Rightarrow> capture_inputs \<Rightarrow> combatant \<Rightarrow> combatant \<Rightarrow> capture_world
     \<Rightarrow> error + (bool \<times> capture_world)" where
  "try_capture_military_unit prng ci attacker defender w =
     (case defender of
        CityCombatant c \<Rightarrow> Inr (False, w)
      | MapUnitCombatant d \<Rightarrow>
          (case attacker of
             CityCombatant c \<Rightarrow> Inr (False, w)
           | MapUnitCombatant a \<Rightarrow>
               if unit_Uncapturable d then Inr (False, w)
               else if \<not> is_defeated defender \<or> unit_is_civilian d then Inr (False, w)
               else (case unit_captured_prize_ships_unique prng ci a d w of
                       Inl e \<Rightarrow> Inl e
                     | Inr (b1, w1) \<Rightarrow>
                         (let (b2, w2) = unit_captured_from_encampment ci d w1;
                              (b3, w3) = unit_gain_from_defeating_unit ci a w2
                          in if \<not> (b1 \<or> b2 \<or> b3) then Inr (False, w3)
                             else Inr (spawn_captured_unit ci w3)))))"

text \<open>The gold the two gold-granting triggers hand out.\<close>

definition encampment_gold :: "capture_inputs \<Rightarrow> map_unit \<Rightarrow> int" where
  "encampment_gold ci defender_unit =
     (if unit_civ_is_barbarian defender_unit \<and> attacked_tile_is_encampment ci
      then sum_list (GainFromEncampment_amounts ci) else 0)"

definition matching_gain :: "capture_inputs \<Rightarrow> int" where
  "matching_gain ci =
     sum_list (map snd (filter (\<lambda>unique. defender_unit_matches_filter ci (fst unique))
                               (GainFromDefeatingUnit_uniques ci)))"

definition has_matching_gain_unique :: "capture_inputs \<Rightarrow> bool" where
  "has_matching_gain_unique ci =
     list_ex (\<lambda>unique. defender_unit_matches_filter ci (fst unique))
       (GainFromDefeatingUnit_uniques ci)"

definition defeating_gold :: "capture_inputs \<Rightarrow> map_unit \<Rightarrow> int" where
  "defeating_gold ci attacker_unit =
     (if is_melee (MapUnitCombatant attacker_unit) then matching_gain ci else 0)"

section \<open>The experience step and the city-capture step of \<open>Battle.attack\<close>\<close>




text \<open>
  The city-capture step (\<open># Handle city capture\<close>), run on the defender as
  \<open>Battle.take_damage\<close> left it.
\<close>

record attack_world =
  defender_now :: combatant
  defender_civ_gold :: int
  attacker_unit_destroyed :: bool
  conquer_city_called :: bool
  raid_notifications :: "int list"

definition handle_city_capture ::
  "(int \<Rightarrow> int \<Rightarrow> int) \<Rightarrow> combatant \<Rightarrow> attack_world \<Rightarrow> attack_world" where
  "handle_city_capture utd attacker w =
     (case attacker of
        CityCombatant c \<Rightarrow> w
      | MapUnitCombatant u \<Rightarrow>
          if is_defeated (defender_now w) \<and> is_city (defender_now w) \<and> is_melee attacker
             \<and> \<not> unit_CannotCaptureCities u
          then (if unit_civ_is_barbarian u
                then (let ransom = min 200 (defender_civ_gold w)
                      in w\<lparr>defender_now := take_damage utd (defender_now w) (- 1),
                           defender_civ_gold := defender_civ_gold w + (- ransom),
                           raid_notifications := raid_notifications w @ [ransom],
                           attacker_unit_destroyed := True\<rparr>)
                else w\<lparr>conquer_city_called := True\<rparr>)
          else w)"

section \<open>\<open>Nuke.NUKE\<close>\<close>

text \<open>
  Civilizations are numbered.  A tile carries its position, its owner and the civilizations
  of the units standing on it.  \<open>nuke_inputs\<close> holds what \<open>NUKE\<close> reads from its
  surroundings: the strength parameter of the first \<open>NuclearWeapon\<close> unique of the unit (if
  any), the tiles within the blast radius, who knows the attacking civilization, the list of
  all civilizations and who is alive.  Three behaviours are decided elsewhere and are
  parameters: \<open>interception c h\<close> is the health of the nuke after
  \<open>try_intercept_air_attack\<close> by the units of \<open>c\<close> when its health was \<open>h\<close>;
  \<open>blast_on_nuke t h\<close> is its health after \<open>_do_nuke_explosion_for_tile\<close> on \<open>t\<close>; and
  \<open>set_order\<close> is the order in which Python iterates over a set built from the given
  elements.
\<close>

type_synonym civ = nat

record tile =
  tile_position :: int
  tile_owner :: "civ option"
  tile_unit_civs :: "civ list"

record nuke_inputs =
  attacking_civ :: civ
  NuclearWeapon_strength :: "int option"
  nuke_is_air_unit :: bool
  nuke_SelfDestructs :: bool
  hit_tiles :: "tile list"
  target_tile :: tile
  knows_attacking_civ :: "civ \<Rightarrow> bool"
  known_civs :: "civ list"
  civilizations :: "civ list"
  is_alive :: "civ \<Rightarrow> bool"
  interception :: "civ \<Rightarrow> int \<Rightarrow> int"
  blast_on_nuke :: "tile \<Rightarrow> int \<Rightarrow> int"
  set_order :: "civ list \<Rightarrow> civ list"

datatype nuke_notification =
  AttemptedAttackWar civ
| HitWar civ
| ExplodedInTerritory civ
| DetonatedBy civ
| DetonatedByUnknown civ

text \<open>
  The state \<open>NUKE\<close> changes: the health of the nuke, the civilizations the attacker is at
  war with, the log of \<open>_do_nuke_explosion_for_tile\<close> calls (tile, strength, ground zero),
  the two attack records of the unit, whether the unit was destroyed, the civilizations whose
  \<open>UsedNuclearWeapons\<close> modifier was set, and the notifications.
\<close>

record nuke_world =
  nuke_health :: int
  at_war :: "civ list"
  explosions :: "(tile \<times> int \<times> bool) list"
  attacks_this_turn :: int
  attacks_since_turn_start :: "int list"
  nuke_destroyed :: bool
  UsedNuclearWeapons :: "civ list"
  nuke_notifications :: "nuke_notification list"

definition nuke_is_defeated :: "nuke_world \<Rightarrow> bool" where
  "nuke_is_defeated w = (nuke_health w \<le> 0)"

text \<open>
  Modelled from the spec: \<open>DiplomacyManager.declare_war\<close> is not among the sources; it puts
  the two civilizations at war.
\<close>

definition declare_war :: "civ \<Rightarrow> nuke_world \<Rightarrow> nuke_world" where
  "declare_war c w = w\<lparr>at_war := at_war w @ [c]\<rparr>"

definition try_declare_war ::
  "nuke_inputs \<Rightarrow> civ \<Rightarrow> nuke_world \<times> civ list \<Rightarrow> nuke_world \<times> civ list" where
  "try_declare_war ni civ_suffered st =
     (case st of (w, notify_declared_war_civs) \<Rightarrow>
        if civ_suffered \<noteq> attacking_civ ni \<and> knows_attacking_civ ni civ_suffered
           \<and> civ_suffered \<notin> set (at_war w)
        then (declare_war civ_suffered w,
              if civ_suffered \<notin> set notify_declared_war_civs
              then notify_declared_war_civs @ [civ_suffered] else notify_declared_war_civs)
        else (w, notify_declared_war_civs))"

definition hit_owners :: "nuke_inputs \<Rightarrow> civ list" where
  "hit_owners ni =
     set_order ni (remdups (concat (map (\<lambda>t. case tile_owner t of None \<Rightarrow> [] | Some c \<Rightarrow> [c])
                                        (hit_tiles ni))))"

definition hit_unit_civs :: "nuke_inputs \<Rightarrow> civ list" where
  "hit_unit_civs ni =
     set_order ni (remdups (concat (map (\<lambda>t. filter (\<lambda>c. c \<noteq> attacking_civ ni) (tile_unit_civs t))
                                        (hit_tiles ni))))"

text \<open>The body of the second loop of \<open>_declare_war_on_hit_civs\<close>.\<close>

definition declare_war_and_intercept ::
  "nuke_inputs \<Rightarrow> civ \<Rightarrow> nuke_world \<times> civ list \<Rightarrow> nuke_world \<times> civ list" where
  "declare_war_and_intercept ni civ_whose_unit_was_attacked st =
     (case try_declare_war ni civ_whose_unit_was_attacked st of
        (w1, notify) \<Rightarrow>
          if nuke_is_air_unit ni \<and> \<not> nuke_is_defeated w1
          then (w1\<lparr>nuke_health := interception ni civ_whose_unit_was_attacked (nuke_health w1)\<rparr>,
                notify)
          else (w1, notify))"

definition declare_war_on_hit_civs ::
  "nuke_inputs \<Rightarrow> nuke_world \<Rightarrow> civ list \<times> civ list \<times> nuke_world" where
  "declare_war_on_hit_civs ni w =
     (let hit_civs_territory = hit_owners ni;
          st1 = fold (try_declare_war ni) hit_civs_territory (w, []);
          st2 = fold (declare_war_and_intercept ni) (hit_unit_civs ni) st1
      in (hit_civs_territory, snd st2, fst st2))"

definition add_nuke_notifications ::
  "nuke_inputs \<Rightarrow> civ list \<Rightarrow> civ list \<Rightarrow> nuke_world \<Rightarrow> nuke_world" where
  "add_nuke_notifications ni notify_declared_war_civs hit_civs_territory w =
     (if nuke_is_defeated w
      then w\<lparr>nuke_notifications :=
                nuke_notifications w @ map AttemptedAttackWar notify_declared_war_civs\<rparr>
      else w\<lparr>nuke_notifications :=
                nuke_notifications w @ map HitWar notify_declared_war_civs
                @ concat (map (\<lambda>other_civ.
                     if \<not> is_alive ni other_civ \<or> other_civ = attacking_civ ni then []
                     else if other_civ \<in> set hit_civs_territory then [ExplodedInTerritory other_civ]
                     else if knows_attacking_civ ni other_civ then [DetonatedBy other_civ]
                     else [DetonatedByUnknown other_civ]) (civilizations ni))\<rparr>)"

definition do_nuke_explosion_for_tile ::
  "nuke_inputs \<Rightarrow> int \<Rightarrow> tile \<Rightarrow> nuke_world \<Rightarrow> nuke_world" where
  "do_nuke_explosion_for_tile ni nuke_strength t w =
     w\<lparr>explosions := explosions w @ [(t, nuke_strength, target_tile ni = t)],
       nuke_health := blast_on_nuke ni t (nuke_health w)\<rparr>"

definition NUKE :: "nuke_inputs \<Rightarrow> nuke_world \<Rightarrow> nuke_world" where
  "NUKE ni w =
     (case NuclearWeapon_strength ni of
        None \<Rightarrow> w
      | Some nuke_strength \<Rightarrow>
          (case declare_war_on_hit_civs ni w of
             (hit_civs_territory, notify_declared_war_civs, w1) \<Rightarrow>
               (let w2 = add_nuke_notifications ni notify_declared_war_civs hit_civs_territory w1
                in if nuke_is_defeated w2 then w2
                   else (let w3 = w2\<lparr>attacks_since_turn_start :=
                                        attacks_since_turn_start w2
                                          @ [tile_position (target_tile ni)]\<rparr>;
                             w4 = fold (do_nuke_explosion_for_tile ni nuke_strength) (hit_tiles ni) w3;
                             w5 = (if nuke_SelfDestructs ni then w4\<lparr>nuke_destroyed := True\<rparr> else w4);
                             w6 = w5\<lparr>UsedNuclearWeapons := UsedNuclearWeapons w5 @ known_civs ni\<rparr>
                         in if \<not> nuke_is_defeated w6
                            then w6\<lparr>attacks_this_turn := attacks_this_turn w6 + 1\<rparr>
                            else w6))))"

text \<open>The civilizations hit: owners of hit tiles and owners of units on hit tiles.\<close>

definition is_hit_civ :: "nuke_inputs \<Rightarrow> civ \<Rightarrow> bool" where
  "is_hit_civ ni c =
     list_ex (\<lambda>t. tile_owner t = Some c \<or> c \<in> set (tile_unit_civs t)) (hit_tiles ni)"

text \<open>What the war-declaration phase must leave alone.\<close>

definition same_detonation_state :: "nuke_world \<Rightarrow> nuke_world \<Rightarrow> bool" where
  "same_detonation_state w w' =
     (explosions w' = explosions w \<and> attacks_this_turn w' = attacks_this_turn w
      \<and> attacks_since_turn_start w' = attacks_since_turn_start w
      \<and> nuke_destroyed w' = nuke_destroyed w \<and> UsedNuclearWeapons w' = UsedNuclearWeapons w)"

section \<open>Concrete scenarios\<close>

text \<open>
  The inputs at which the theorems below are evaluated.  \<open>clamped_take_damage\<close> is the
  \<open>take_damage\<close> of the \<open>MapUnitCombatant\<close> class in \<open>air_interception.py\<close>; the two
  constants are those of the original rule set.
\<close>

definition clamped_take_damage :: "int \<Rightarrow> int \<Rightarrow> int" where
  "clamped_take_damage h d = max 0 (h - d)"


definition demo_prng :: "int \<Rightarrow> real" where
  "demo_prng seed = (if seed = 77 then 1 / 4 else 3 / 4)"

definition standard_constants :: battle_constants where
  "standard_constants =
     \<lparr>DAMAGE_REDUCTION_WOUNDED_UNIT_RATIO_PERCENTAGE = 300, DAMAGE_TO_CIVILIAN_UNIT = 40\<rparr>"

definition even_fight :: damage_inputs where
  "even_fight = \<lparr>attacker_base_strength = 20, defender_base_strength = 10,
     attack_modifiers = [], defence_modifiers = []\<rparr>"

definition melee_unit :: map_unit where
  "melee_unit = \<lparr>unit_health = 100, unit_is_ranged = False, unit_is_air_unit = False,
     unit_is_civilian = False, unit_civ_is_barbarian = False, unit_turns = 7,
     unit_position_hash = 11, unit_NoDamagePenaltyWoundedUnits = False,
     unit_CannotCaptureCities = False, unit_Uncapturable = False\<rparr>"

definition ranged_unit :: map_unit where
  "ranged_unit = melee_unit\<lparr>unit_is_ranged := True\<rparr>"




definition fallen_unit :: map_unit where
  "fallen_unit = melee_unit\<lparr>unit_health := 0, unit_position_hash := 13\<rparr>"

definition barbarian_unit :: map_unit where
  "barbarian_unit = melee_unit\<lparr>unit_civ_is_barbarian := True\<rparr>"

definition barbarian_without_capture :: map_unit where
  "barbarian_without_capture = barbarian_unit\<lparr>unit_CannotCaptureCities := True\<rparr>"

definition reduced_city :: city where
  "reduced_city = \<lparr>city_health = 1, city_turns = 7, city_position_hash = 13\<rparr>"

definition healthy_city :: city where
  "healthy_city = \<lparr>city_health = 150, city_turns = 7, city_position_hash = 11\<rparr>"



definition military_filter :: "string \<Rightarrow> bool" where
  "military_filter f = (f = ''Military'')"

definition plunder_inputs :: capture_inputs where
  "plunder_inputs = \<lparr>KillUnitCapture_filters = [], GainFromEncampment_amounts = [],
     GainFromDefeatingUnit_uniques = [(''Military'', 25)],
     defender_matches_filter = military_filter, defender_unit_matches_filter = military_filter,
     capture_attacking_strength = 20, capture_defending_strength = 10,
     attacked_tile_is_encampment = False, place_unit_near_tile = None,
     civilian_on_defender_tile = False\<rparr>"

definition treasury :: capture_world where
  "treasury = \<lparr>attacker_civ_gold = 100, added_unit = None, capture_notifications = 0,
     civilian_capture_invoked = False, capture_rng = 0\<rparr>"



definition besieged :: attack_world where
  "besieged = \<lparr>defender_now = CityCombatant reduced_city, defender_civ_gold = 500,
     attacker_unit_destroyed = False, conquer_city_called = False, raid_notifications = []\<rparr>"

definition everyone :: "civ \<Rightarrow> bool" where
  "everyone c = True"

definition shot_down :: "civ \<Rightarrow> int \<Rightarrow> int" where
  "shot_down c h = 0"

definition no_blast :: "tile \<Rightarrow> int \<Rightarrow> int" where
  "no_blast t h = h"

definition owned_tile :: tile where
  "owned_tile = \<lparr>tile_position = 1, tile_owner = Some 1, tile_unit_civs = [2]\<rparr>"

definition open_tile :: tile where
  "open_tile = \<lparr>tile_position = 2, tile_owner = None, tile_unit_civs = [0]\<rparr>"

definition strike :: nuke_inputs where
  "strike = \<lparr>attacking_civ = 0, NuclearWeapon_strength = Some 2, nuke_is_air_unit = True,
     nuke_SelfDestructs = True, hit_tiles = [owned_tile, open_tile], target_tile = owned_tile,
     knows_attacking_civ = everyone, known_civs = [1, 2], civilizations = [0, 1, 2],
     is_alive = everyone, interception = shot_down, blast_on_nuke = no_blast, set_order = rev\<rparr>"

definition launch :: nuke_world where
  "launch = \<lparr>nuke_health = 100, at_war = [], explosions = [], attacks_this_turn = 0,
     attacks_since_turn_start = [], nuke_destroyed = False, UsedNuclearWeapons = [],
     nuke_notifications = []\<rparr>"

section \<open>Properties\<close>

subsection \<open>Damage modifier\<close>







subsection \<open>The HP exchange loop\<close>












subsection \<open>Ranged attackers\<close>

text \<open>
  Claim C3.  For every attacker that is ranged and not an air unit, and every defender,
  strength input and randomness factor (given or defaulted), \<open>calculate_damage_to_attacker\<close>
  returns 0.
\<close>

theorem ranged_attacker_takes_no_damage:
  "is_ranged attacker \<Longrightarrow> \<not> is_air_unit attacker \<Longrightarrow>
   fst (calculate_damage_to_attacker prng bc di attacker defender randomness_factor g) = Inr 0"
  by (simp add: calculate_damage_to_attacker_def split: prod.splits)

theorem ranged_attacker_takes_no_damage_witness:
  "is_ranged (MapUnitCombatant ranged_unit) \<and> \<not> is_air_unit (MapUnitCombatant ranged_unit)
   \<and> fst (calculate_damage_to_attacker demo_prng standard_constants even_fight
            (MapUnitCombatant ranged_unit) (MapUnitCombatant melee_unit) None 0) = Inr 0
   \<and> fst (calculate_damage_to_attacker demo_prng standard_constants even_fight
            (MapUnitCombatant melee_unit) (MapUnitCombatant melee_unit) None 0) = Inr 15"
  using ranged_attacker_takes_no_damage
    [of "MapUnitCombatant ranged_unit" demo_prng standard_constants even_fight
        "MapUnitCombatant melee_unit" None 0]
  by (simp add: calculate_damage_to_attacker_def ranged_unit_def melee_unit_def default_randomness_factor_def
      seeded_random_def demo_prng_def damage_from_ratio_def py_div_def get_attacking_strength_def
      get_defending_strength_def even_fight_def modifiers_to_final_bonus_def damage_modifier_def
      pow_def random_centered_around_30_def standard_constants_def py_int_def power_int_minus
      power4_eq_xxxx)

subsection \<open>Capture triggers\<close>

lemma add_gold_add_gold: "add_gold a (add_gold b w) = add_gold (b + a) w"
  by (simp add: add_gold_def)

lemma add_gold_0: "add_gold 0 w = w"
  by (simp add: add_gold_def)

lemma gain_fold:
  "fold (\<lambda>unique (unit_captured, w1).
           if p (fst unique) then (True, add_gold (snd unique) w1) else (unit_captured, w1))
     us (b, w)
   = (b \<or> list_ex (\<lambda>unique. p (fst unique)) us,
      add_gold (sum_list (map snd (filter (\<lambda>unique. p (fst unique)) us))) w)"
proof (induction us arbitrary: b w)
  case Nil
  then show ?case by (simp add: add_gold_0)
next
  case (Cons u us)
  then show ?case by (simp add: add_gold_add_gold)
qed

lemma unit_gain_from_defeating_unit_eq:
  "unit_gain_from_defeating_unit ci a w
     = (is_melee (MapUnitCombatant a) \<and> has_matching_gain_unique ci,
        add_gold (defeating_gold ci a) w)"
  by (simp add: unit_gain_from_defeating_unit_def gain_fold has_matching_gain_unique_def
      defeating_gold_def matching_gain_def add_gold_0)

lemma encampment_fold:
  "fold (\<lambda>amount (unit_captured, w1). (True, add_gold amount w1)) xs (b, w)
     = (b \<or> xs \<noteq> [], add_gold (sum_list xs) w)"
proof (induction xs arbitrary: b w)
  case Nil
  then show ?case by (simp add: add_gold_0)
next
  case (Cons x xs)
  then show ?case by (simp add: add_gold_add_gold)
qed

lemma unit_captured_from_encampment_eq:
  "unit_captured_from_encampment ci d w
     = (unit_civ_is_barbarian d \<and> attacked_tile_is_encampment ci
          \<and> GainFromEncampment_amounts ci \<noteq> [],
        add_gold (encampment_gold ci d) w)"
  by (simp add: unit_captured_from_encampment_def encampment_fold encampment_gold_def add_gold_0)

lemma prize_ships_gold:
  "unit_captured_prize_ships_unique prng ci a d w = Inr (b1, w1) \<Longrightarrow>
   attacker_civ_gold w1 = attacker_civ_gold w"
  by (auto simp: unit_captured_prize_ships_unique_def Let_def prize_ships_roll_def
      seeded_random_def split: if_splits sum.splits)

text \<open>
  Claim C5, as the code has it.  The gain-from-defeating-unit trigger starts with a guard
  on the attacker: only for a melee attacker with a unique whose filter matches the defeated
  unit does it grant the gold of every matching unique and report success; and then, the
  capture preconditions holding and the prize-ships trigger having returned,
  \<open>try_capture_military_unit\<close> goes on to spawn the captured unit.
\<close>

theorem gain_from_defeating_unit_melee:
  assumes "\<not> unit_is_ranged a" and "has_matching_gain_unique ci"
  shows "unit_gain_from_defeating_unit ci a w = (True, add_gold (matching_gain ci) w)
         \<and> (\<not> unit_Uncapturable d \<and> unit_health d \<le> 0 \<and> \<not> unit_is_civilian d
              \<and> unit_captured_prize_ships_unique prng ci a d w = Inr (b1, w1) \<longrightarrow>
            try_capture_military_unit prng ci (MapUnitCombatant a) (MapUnitCombatant d) w
              = Inr (spawn_captured_unit ci
                       (add_gold (matching_gain ci) (add_gold (encampment_gold ci d) w1))))"
  using assms
  by (simp add: try_capture_military_unit_def unit_gain_from_defeating_unit_eq
      unit_captured_from_encampment_eq defeating_gold_def is_melee_def)

theorem gain_from_defeating_unit_melee_witness:
  "\<not> unit_is_ranged melee_unit \<and> has_matching_gain_unique plunder_inputs
   \<and> unit_gain_from_defeating_unit plunder_inputs melee_unit treasury
       = (True, treasury\<lparr>attacker_civ_gold := 125\<rparr>)
   \<and> \<not> unit_Uncapturable fallen_unit \<and> unit_health fallen_unit \<le> 0
   \<and> \<not> unit_is_civilian fallen_unit
   \<and> unit_captured_prize_ships_unique demo_prng plunder_inputs melee_unit fallen_unit treasury
       = Inr (False, treasury)
   \<and> try_capture_military_unit demo_prng plunder_inputs (MapUnitCombatant melee_unit)
       (MapUnitCombatant fallen_unit) treasury
       = Inr (spawn_captured_unit plunder_inputs (treasury\<lparr>attacker_civ_gold := 125\<rparr>))"
  using gain_from_defeating_unit_melee
    [of melee_unit plunder_inputs treasury fallen_unit demo_prng False treasury]
  by (simp add: has_matching_gain_unique_def plunder_inputs_def military_filter_def melee_unit_def fallen_unit_def
      unit_captured_prize_ships_unique_def add_gold_def treasury_def matching_gain_def
      encampment_gold_def)

text \<open>
  Claim C5 as stated fails for a ranged attacker: all capture preconditions hold and the
  unique matches the defeated unit, yet the trigger reports no success, grants no gold, and
  \<open>try_capture_military_unit\<close> reports no capture.
\<close>

theorem gain_skipped_for_ranged_attacker:
  "has_matching_gain_unique plunder_inputs
   \<and> is_defeated (MapUnitCombatant fallen_unit) \<and> \<not> unit_is_civilian fallen_unit
   \<and> \<not> unit_Uncapturable fallen_unit
   \<and> unit_gain_from_defeating_unit plunder_inputs ranged_unit treasury = (False, treasury)
   \<and> try_capture_military_unit demo_prng plunder_inputs (MapUnitCombatant ranged_unit)
       (MapUnitCombatant fallen_unit) treasury = Inr (False, treasury)"
  by (simp add: has_matching_gain_unique_def plunder_inputs_def military_filter_def ranged_unit_def fallen_unit_def melee_unit_def
      unit_gain_from_defeating_unit_def is_melee_def try_capture_military_unit_def
      unit_captured_prize_ships_unique_def unit_captured_from_encampment_def)

text \<open>
  Claim C10.  Capture is not atomic.  For a defeated, capturable, non-civilian defender, when
  the three triggers have run, at least one of them fired and \<open>place_unit_near_tile\<close> returns
  nothing, \<open>try_capture_military_unit\<close> returns \<open>False\<close> and the state it leaves still holds
  the gold the triggers granted: the attacker's gold is the gold before plus the encampment
  gold plus the gold for defeating the unit.
\<close>

theorem capture_not_atomic:
  assumes "\<not> unit_Uncapturable d" and "unit_health d \<le> 0" and "\<not> unit_is_civilian d"
    and "unit_captured_prize_ships_unique prng ci a d w = Inr (b1, w1)"
    and "unit_captured_from_encampment ci d w1 = (b2, w2)"
    and "unit_gain_from_defeating_unit ci a w2 = (b3, w3)"
    and "b1 \<or> b2 \<or> b3"
    and "place_unit_near_tile ci = None"
  shows "try_capture_military_unit prng ci (MapUnitCombatant a) (MapUnitCombatant d) w
           = Inr (False, w3)
         \<and> attacker_civ_gold w3
             = attacker_civ_gold w + encampment_gold ci d + defeating_gold ci a"
proof -
  from assms(5) have w2: "w2 = add_gold (encampment_gold ci d) w1"
    by (simp add: unit_captured_from_encampment_eq)
  from assms(6) have w3: "w3 = add_gold (defeating_gold ci a) w2"
    by (simp add: unit_gain_from_defeating_unit_eq)
  have "try_capture_military_unit prng ci (MapUnitCombatant a) (MapUnitCombatant d) w
          = Inr (False, w3)"
    using assms by (simp add: try_capture_military_unit_def spawn_captured_unit_def)
  moreover have "attacker_civ_gold w3
      = attacker_civ_gold w + encampment_gold ci d + defeating_gold ci a"
    using prize_ships_gold [OF assms(4)] by (simp add: w2 w3 add_gold_def)
  ultimately show ?thesis by simp
qed

theorem capture_not_atomic_witness:
  "\<not> unit_Uncapturable fallen_unit \<and> unit_health fallen_unit \<le> 0
   \<and> \<not> unit_is_civilian fallen_unit
   \<and> unit_captured_prize_ships_unique demo_prng plunder_inputs melee_unit fallen_unit treasury
       = Inr (False, treasury)
   \<and> unit_captured_from_encampment plunder_inputs fallen_unit treasury = (False, treasury)
   \<and> unit_gain_from_defeating_unit plunder_inputs melee_unit treasury
       = (True, treasury\<lparr>attacker_civ_gold := 125\<rparr>)
   \<and> place_unit_near_tile plunder_inputs = None
   \<and> try_capture_military_unit demo_prng plunder_inputs (MapUnitCombatant melee_unit)
       (MapUnitCombatant fallen_unit) treasury = Inr (False, treasury\<lparr>attacker_civ_gold := 125\<rparr>)
   \<and> attacker_civ_gold treasury = 100"
  using capture_not_atomic
    [of fallen_unit demo_prng plunder_inputs melee_unit treasury False treasury False treasury
        True "treasury\<lparr>attacker_civ_gold := 125\<rparr>"]
  by (simp add: plunder_inputs_def military_filter_def melee_unit_def fallen_unit_def
      unit_captured_prize_ships_unique_def unit_captured_from_encampment_def
      unit_gain_from_defeating_unit_def is_melee_def add_gold_def treasury_def)

subsection \<open>Experience\<close>




subsection \<open>Barbarian raids\<close>

text \<open>
  Claim C7, as the code has it.  When a barbarian melee unit without the
  \<open>CannotCaptureCities\<close> unique has defeated a city (the city stands at 1 HP after the
  exchange), the city-capture step does not call \<open>conquer_city\<close>: it sets the health of the
  city to 2, removes exactly \<open>min(200, gold)\<close> from the defending civilization and destroys
  the attacking unit.
\<close>

theorem barbarian_raid:
  assumes "unit_civ_is_barbarian u" and "\<not> unit_is_ranged u" and "\<not> unit_CannotCaptureCities u"
    and "defender_now w = CityCombatant c" and "city_health c = 1"
  shows "get_health (defender_now (handle_city_capture utd (MapUnitCombatant u) w)) = 2
       \<and> conquer_city_called (handle_city_capture utd (MapUnitCombatant u) w)
           = conquer_city_called w
       \<and> defender_civ_gold (handle_city_capture utd (MapUnitCombatant u) w)
           = defender_civ_gold w - min 200 (defender_civ_gold w)
       \<and> attacker_unit_destroyed (handle_city_capture utd (MapUnitCombatant u) w)"
  using assms
  by (simp add: handle_city_capture_def is_melee_def Let_def CityCombatant_take_damage_def)

theorem barbarian_raid_witness:
  "unit_civ_is_barbarian barbarian_unit \<and> \<not> unit_is_ranged barbarian_unit
   \<and> \<not> unit_CannotCaptureCities barbarian_unit
   \<and> defender_now besieged = CityCombatant reduced_city \<and> city_health reduced_city = 1
   \<and> handle_city_capture clamped_take_damage (MapUnitCombatant barbarian_unit) besieged
       = \<lparr>defender_now = CityCombatant (reduced_city\<lparr>city_health := 2\<rparr>),
          defender_civ_gold = 300, attacker_unit_destroyed = True, conquer_city_called = False,
          raid_notifications = [200]\<rparr>"
  using barbarian_raid [of barbarian_unit besieged reduced_city clamped_take_damage]
  by (simp add: barbarian_unit_def melee_unit_def reduced_city_def besieged_def handle_city_capture_def is_melee_def
      CityCombatant_take_damage_def Let_def)

text \<open>
  Claim C7 as stated fails for a barbarian melee unit that has the \<open>CannotCaptureCities\<close>
  unique: the city is defeated, and the step changes nothing; the city stays at 1 HP, no gold
  is taken and the unit is not destroyed.
\<close>

theorem raid_skipped_with_CannotCaptureCities:
  "unit_civ_is_barbarian barbarian_without_capture
   \<and> is_melee (MapUnitCombatant barbarian_without_capture)
   \<and> is_city (defender_now besieged) \<and> is_defeated (defender_now besieged)
   \<and> handle_city_capture clamped_take_damage (MapUnitCombatant barbarian_without_capture) besieged
       = besieged
   \<and> get_health (defender_now besieged) = 1"
  by (simp add: barbarian_without_capture_def barbarian_unit_def melee_unit_def
      reduced_city_def besieged_def handle_city_capture_def is_melee_def)

subsection \<open>Intercepted nukes\<close>

lemma try_declare_war_same:
  "same_detonation_state w (fst st) \<Longrightarrow> same_detonation_state w (fst (try_declare_war ni c st))"
  by (cases st) (simp add: try_declare_war_def declare_war_def same_detonation_state_def)

lemma declare_war_and_intercept_same:
  "same_detonation_state w (fst st) \<Longrightarrow>
   same_detonation_state w (fst (declare_war_and_intercept ni c st))"
  using try_declare_war_same [of w st ni c]
  by (cases "try_declare_war ni c st")
     (simp add: declare_war_and_intercept_def same_detonation_state_def)

lemma fold_try_declare_war_same:
  "same_detonation_state w (fst st) \<Longrightarrow>
   same_detonation_state w (fst (fold (try_declare_war ni) cs st))"
  by (induction cs arbitrary: st) (simp_all add: try_declare_war_same)

lemma fold_declare_war_and_intercept_same:
  "same_detonation_state w (fst st) \<Longrightarrow>
   same_detonation_state w (fst (fold (declare_war_and_intercept ni) cs st))"
  by (induction cs arbitrary: st) (simp_all add: declare_war_and_intercept_same)

lemma declare_war_on_hit_civs_same:
  "declare_war_on_hit_civs ni w = (terr, notify, w1) \<Longrightarrow> same_detonation_state w w1"
  using fold_declare_war_and_intercept_same
          [OF fold_try_declare_war_same [of w "(w, [])" ni "hit_owners ni"],
           of ni "hit_unit_civs ni"]
  by (auto simp: declare_war_on_hit_civs_def Let_def same_detonation_state_def)

lemma try_declare_war_mono:
  "set (at_war (fst st)) \<subseteq> set (at_war (fst (try_declare_war ni c st)))"
  by (cases st) (auto simp: try_declare_war_def declare_war_def)

lemma try_declare_war_declares:
  "c \<noteq> attacking_civ ni \<Longrightarrow> knows_attacking_civ ni c \<Longrightarrow>
   c \<in> set (at_war (fst (try_declare_war ni c st)))"
  by (cases st) (auto simp: try_declare_war_def declare_war_def)

lemma declare_war_and_intercept_at_war:
  "at_war (fst (declare_war_and_intercept ni c st)) = at_war (fst (try_declare_war ni c st))"
  by (cases "try_declare_war ni c st") (simp add: declare_war_and_intercept_def)

lemma fold_try_declare_war_mono:
  "set (at_war (fst st)) \<subseteq> set (at_war (fst (fold (try_declare_war ni) cs st)))"
proof (induction cs arbitrary: st)
  case Nil
  then show ?case by simp
next
  case (Cons c cs)
  from try_declare_war_mono [of st ni c] Cons.IH [of "try_declare_war ni c st"]
  show ?case by auto
qed

lemma fold_declare_war_and_intercept_mono:
  "set (at_war (fst st)) \<subseteq> set (at_war (fst (fold (declare_war_and_intercept ni) cs st)))"
proof (induction cs arbitrary: st)
  case Nil
  then show ?case by simp
next
  case (Cons c cs)
  from try_declare_war_mono [of st ni c] Cons.IH [of "declare_war_and_intercept ni c st"]
  show ?case by (auto simp: declare_war_and_intercept_at_war)
qed

lemma fold_try_declare_war_declares:
  "c \<in> set cs \<Longrightarrow> c \<noteq> attacking_civ ni \<Longrightarrow> knows_attacking_civ ni c \<Longrightarrow>
   c \<in> set (at_war (fst (fold (try_declare_war ni) cs st)))"
proof (induction cs arbitrary: st)
  case Nil
  then show ?case by simp
next
  case (Cons x cs)
  show ?case
  proof (cases "c = x")
    case True
    with try_declare_war_declares [OF Cons.prems(2,3), of st]
      fold_try_declare_war_mono [of "try_declare_war ni x st" ni cs]
    show ?thesis by auto
  next
    case False
    with Cons show ?thesis by simp
  qed
qed

lemma fold_declare_war_and_intercept_declares:
  "c \<in> set cs \<Longrightarrow> c \<noteq> attacking_civ ni \<Longrightarrow> knows_attacking_civ ni c \<Longrightarrow>
   c \<in> set (at_war (fst (fold (declare_war_and_intercept ni) cs st)))"
proof (induction cs arbitrary: st)
  case Nil
  then show ?case by simp
next
  case (Cons x cs)
  show ?case
  proof (cases "c = x")
    case True
    with try_declare_war_declares [OF Cons.prems(2,3), of st]
      fold_declare_war_and_intercept_mono [of "declare_war_and_intercept ni x st" ni cs]
    show ?thesis by (auto simp: declare_war_and_intercept_at_war)
  next
    case False
    with Cons show ?thesis by simp
  qed
qed

lemma is_hit_civ_cases:
  assumes "is_hit_civ ni c" and "c \<noteq> attacking_civ ni" and "\<forall>xs. set (set_order ni xs) = set xs"
  shows "c \<in> set (hit_owners ni) \<or> c \<in> set (hit_unit_civs ni)"
proof -
  from assms(1) obtain t where t: "t \<in> set (hit_tiles ni)"
    and h: "tile_owner t = Some c \<or> c \<in> set (tile_unit_civs t)"
    by (auto simp: is_hit_civ_def list_ex_iff)
  from h show ?thesis
  proof
    assume "tile_owner t = Some c"
    with t assms(3) have "c \<in> set (hit_owners ni)"
      by (force simp: hit_owners_def)
    then show ?thesis ..
  next
    assume "c \<in> set (tile_unit_civs t)"
    with t assms(2,3) have "c \<in> set (hit_unit_civs ni)"
      by (force simp: hit_unit_civs_def)
    then show ?thesis ..
  qed
qed

lemma declare_war_on_hit_civs_declares:
  assumes "declare_war_on_hit_civs ni w = (terr, notify, w1)"
    and "is_hit_civ ni c" and "c \<noteq> attacking_civ ni" and "knows_attacking_civ ni c"
    and "\<forall>xs. set (set_order ni xs) = set xs"
  shows "c \<in> set (at_war w1)"
proof -
  let ?st1 = "fold (try_declare_war ni) (hit_owners ni) (w, [])"
  from assms(1) have w1: "w1 = fst (fold (declare_war_and_intercept ni) (hit_unit_civs ni) ?st1)"
    by (auto simp: declare_war_on_hit_civs_def Let_def)
  from is_hit_civ_cases [OF assms(2,3,5)] show ?thesis
  proof
    assume "c \<in> set (hit_owners ni)"
    from fold_try_declare_war_declares [OF this assms(3,4), of "(w, [])"]
      fold_declare_war_and_intercept_mono [of ?st1 ni "hit_unit_civs ni"]
    show ?thesis unfolding w1 by auto
  next
    assume "c \<in> set (hit_unit_civs ni)"
    from fold_declare_war_and_intercept_declares [OF this assms(3,4), of ?st1]
    show ?thesis unfolding w1 by simp
  qed
qed

lemma strike_declares:
  "declare_war_on_hit_civs strike launch
     = ([1], [1, 2], launch\<lparr>nuke_health := 0, at_war := [1, 2]\<rparr>)"
  by (simp add: declare_war_on_hit_civs_def strike_def launch_def hit_owners_def
      hit_unit_civs_def owned_tile_def open_tile_def try_declare_war_def
      declare_war_and_intercept_def declare_war_def everyone_def shot_down_def
      nuke_is_defeated_def Let_def)

text \<open>
  Claim C8.  When the firing unit carries a \<open>NuclearWeapon\<close> unique and is defeated at the
  end of the war-declaration phase, \<open>NUKE\<close> returns the state that phase produced, with only
  the notifications of the attempted attack added: the log of tile explosions (city damage,
  unit damage, pillage and fallout all happen inside those calls) is unchanged, neither
  attack record of the unit is touched, and the wars declared stay declared; every hit
  civilization other than the attacker that knows the attacker is at war with it.  This
  holds for every order in which the sets of hit civilizations are iterated.
\<close>

theorem intercepted_nuke_does_not_detonate:
  assumes "NuclearWeapon_strength ni = Some nuke_strength"
    and "declare_war_on_hit_civs ni w = (hit_civs_territory, notify_declared_war_civs, w1)"
    and "nuke_is_defeated w1"
    and "\<forall>xs. set (set_order ni xs) = set xs"
  shows "NUKE ni w = w1\<lparr>nuke_notifications :=
                          nuke_notifications w1 @ map AttemptedAttackWar notify_declared_war_civs\<rparr>
       \<and> explosions (NUKE ni w) = explosions w
       \<and> attacks_this_turn (NUKE ni w) = attacks_this_turn w
       \<and> attacks_since_turn_start (NUKE ni w) = attacks_since_turn_start w
       \<and> at_war (NUKE ni w) = at_war w1
       \<and> (\<forall>c. is_hit_civ ni c \<and> c \<noteq> attacking_civ ni \<and> knows_attacking_civ ni c \<longrightarrow>
              c \<in> set (at_war (NUKE ni w)))"
proof -
  have nuke: "NUKE ni w = w1\<lparr>nuke_notifications :=
      nuke_notifications w1 @ map AttemptedAttackWar notify_declared_war_civs\<rparr>"
    using assms(1,2,3)
    by (simp add: NUKE_def add_nuke_notifications_def nuke_is_defeated_def Let_def)
  from declare_war_on_hit_civs_same [OF assms(2)]
  have same: "same_detonation_state w w1" .
  have declared: "\<forall>c. is_hit_civ ni c \<and> c \<noteq> attacking_civ ni \<and> knows_attacking_civ ni c \<longrightarrow>
      c \<in> set (at_war w1)"
    using declare_war_on_hit_civs_declares [OF assms(2) _ _ _ assms(4)] by blast
  from nuke same declared show ?thesis
    by (simp add: same_detonation_state_def)
qed

theorem intercepted_nuke_does_not_detonate_witness:
  "NuclearWeapon_strength strike = Some 2
   \<and> declare_war_on_hit_civs strike launch
       = ([1], [1, 2], launch\<lparr>nuke_health := 0, at_war := [1, 2]\<rparr>)
   \<and> nuke_is_defeated (launch\<lparr>nuke_health := 0, at_war := [1, 2]\<rparr>)
   \<and> is_hit_civ strike 2
   \<and> NUKE strike launch
       = launch\<lparr>nuke_health := 0, at_war := [1, 2],
                nuke_notifications := [AttemptedAttackWar 1, AttemptedAttackWar 2]\<rparr>
   \<and> explosions (NUKE strike launch) = []
   \<and> attacks_this_turn (NUKE strike launch) = 0
   \<and> attacks_since_turn_start (NUKE strike launch) = []
   \<and> 2 \<in> set (at_war (NUKE strike launch))"
proof -
  have s: "NuclearWeapon_strength strike = Some 2" by (simp add: strike_def)
  have z: "nuke_is_defeated (launch\<lparr>nuke_health := 0, at_war := [1, 2]\<rparr>)"
    by (simp add: nuke_is_defeated_def)
  have ord: "\<forall>xs. set (set_order strike xs) = set xs" by (simp add: strike_def)
  have hit: "is_hit_civ strike 2"
    by (simp add: is_hit_civ_def strike_def owned_tile_def open_tile_def)
  from intercepted_nuke_does_not_detonate [OF s strike_declares z ord] s z hit strike_declares
  show ?thesis by (simp add: launch_def)
qed

subsection \<open>Seeded rolls\<close>

text \<open>
  Claim C9.  The damage-randomness factor and the prize-ships capture roll depend only on
  the seed: two evaluations with the same turn number and the same tile-position hash give
  the same value, whatever else differs (the combatants, the position of the process-wide
  generator, the rest of the state), and neither moves the process-wide generator.  The
  same holds for the functions built on them: the damage computed with a defaulted
  randomness factor and the outcome of the prize-ships trigger.
\<close>

theorem seeded_rolls_deterministic:
  assumes "get_turns c1 = get_turns c2" and "get_position_hash c1 = get_position_hash c2"
    and "unit_turns a1 = unit_turns a2" and "unit_position_hash d1 = unit_position_hash d2"
  shows "fst (default_randomness_factor prng c1 None g1)
           = fst (default_randomness_factor prng c2 None g2)
       \<and> snd (default_randomness_factor prng c1 None g1) = g1
       \<and> fst (prize_ships_roll prng a1 d1 g1) = fst (prize_ships_roll prng a2 d2 g2)
       \<and> snd (prize_ships_roll prng a1 d1 g1) = g1
       \<and> calculate_damage_to_defender prng bc di attacker c1 None g1
           = (fst (calculate_damage_to_defender prng bc di attacker c1 None g2), g1)
       \<and> calculate_damage_to_attacker prng bc di c1 defender None g1
           = (fst (calculate_damage_to_attacker prng bc di c1 defender None g2), g1)
       \<and> map_sum id fst (unit_captured_prize_ships_unique prng ci a1 d1 w1)
           = map_sum id fst (unit_captured_prize_ships_unique prng ci a2 d2 w2)
       \<and> (\<forall>b w'. unit_captured_prize_ships_unique prng ci a1 d1 w1 = Inr (b, w') \<longrightarrow>
              capture_rng w' = capture_rng w1)"
  using assms
  by (auto simp: default_randomness_factor_def prize_ships_roll_def seeded_random_def
      calculate_damage_to_defender_def calculate_damage_to_attacker_def
      unit_captured_prize_ships_unique_def Let_def split: sum.splits if_splits)

theorem seeded_rolls_deterministic_witness:
  "get_turns (MapUnitCombatant melee_unit) = get_turns (CityCombatant healthy_city)
   \<and> get_position_hash (MapUnitCombatant melee_unit) = get_position_hash (CityCombatant healthy_city)
   \<and> unit_turns melee_unit = unit_turns ranged_unit
   \<and> unit_position_hash fallen_unit = unit_position_hash (fallen_unit\<lparr>unit_health := - 5\<rparr>)
   \<and> default_randomness_factor demo_prng (MapUnitCombatant melee_unit) None 0 = (1 / 4, 0)
   \<and> default_randomness_factor demo_prng (CityCombatant healthy_city) None 9 = (1 / 4, 9)
   \<and> prize_ships_roll demo_prng melee_unit fallen_unit 0 = (3 / 4, 0)
   \<and> prize_ships_roll demo_prng ranged_unit (fallen_unit\<lparr>unit_health := - 5\<rparr>) 9 = (3 / 4, 9)"
  using seeded_rolls_deterministic
    [of "MapUnitCombatant melee_unit" "CityCombatant healthy_city" melee_unit ranged_unit
        fallen_unit "fallen_unit\<lparr>unit_health := - 5\<rparr>" demo_prng 0 9]
  by (simp add: default_randomness_factor_def prize_ships_roll_def seeded_random_def
      demo_prng_def melee_unit_def healthy_city_def ranged_unit_def fallen_unit_def)

subsection \<open>City health\<close>

lemma CityCombatant_take_damage_health:
  "city_health (CityCombatant_take_damage c d) = max 1 (city_health c - d)"
  by (simp add: CityCombatant_take_damage_def Let_def)

lemma health_after_each_call_ge_1: "h \<in> set (health_after_each_call c ds) \<Longrightarrow> 1 \<le> h"
  by (induction ds arbitrary: c) (auto simp: CityCombatant_take_damage_health)

lemma take_damage_calls_ge_1: "ds \<noteq> [] \<Longrightarrow> 1 \<le> city_health (take_damage_calls c ds)"
proof (induction ds arbitrary: c)
  case Nil
  then show ?case by simp
next
  case (Cons d ds)
  show ?case
  proof (cases ds)
    case Nil
    then show ?thesis by (simp add: CityCombatant_take_damage_health)
  next
    case (Cons e es)
    with Cons.IH [of "CityCombatant_take_damage c d"] show ?thesis by simp
  qed
qed

text \<open>
  Claim C4.  Each \<open>CityCombatant.take_damage\<close> call, with any integer amount, leaves the
  health at \<open>max(1, health - damage)\<close>; hence over any sequence of calls, started from any
  health, the health after every single call is at least 1.
\<close>

theorem city_min_health:
  "city_health (CityCombatant_take_damage c d) = max 1 (city_health c - d)
   \<and> (\<forall>h \<in> set (health_after_each_call c ds). 1 \<le> h)
   \<and> (ds \<noteq> [] \<longrightarrow> 1 \<le> city_health (take_damage_calls c ds))"
  using CityCombatant_take_damage_health health_after_each_call_ge_1 take_damage_calls_ge_1
  by blast

theorem city_min_health_witness:
  "health_after_each_call \<lparr>city_health = 5, city_turns = 0, city_position_hash = 0\<rparr> [3, 40, - 7, 9]
     = [2, 1, 8, 1]
   \<and> city_health (take_damage_calls
        \<lparr>city_health = 5, city_turns = 0, city_position_hash = 0\<rparr> [3, 40, - 7, 9]) = 1"
  using city_min_health
    [of "\<lparr>city_health = 5, city_turns = 0, city_position_hash = 0\<rparr>" 3 "[3, 40, - 7, 9]"]
  by (simp add: CityCombatant_take_damage_def Let_def)

end
